theory Spec2Isabelle
  imports Complex_Main
begin

section \<open>Python values, exceptions and the log\<close>

text \<open>
  The values that reach the daemon come from two JSON files (\<^verbatim>\<open>cron.json\<close>,
  \<^verbatim>\<open>task-definition.json\<close>) and from the return values of the loaded units. They are
  modelled by the JSON universe: \<^verbatim>\<open>None\<close>, booleans, integers, floats (by their real
  value; only their truth value is ever observed), strings, lists and dictionaries with
  string keys. A dictionary is an association list read with \<open>map_of\<close>. A string is a list
  of characters with code points below 256.
\<close>

datatype pyval =
    PNone
  | PBool bool
  | PInt int
  | PFloat real
  | PStr string
  | PList "pyval list"
  | PDict "(string \<times> pyval) list"

text \<open>
  An exception is either an instance of \<^verbatim>\<open>Exception\<close> (with the name of its class), which
  a clause \<^verbatim>\<open>except Exception\<close> catches, or an instance of \<^verbatim>\<open>BaseException\<close> outside
  \<^verbatim>\<open>Exception\<close> (\<^verbatim>\<open>SystemExit\<close>, \<^verbatim>\<open>KeyboardInterrupt\<close>, \<^verbatim>\<open>GeneratorExit\<close>), which that
  clause lets through. The class of an exception raised by a loaded unit is foreign code
  too: \<open>Unprintable c x\<close> is an instance of \<^verbatim>\<open>Exception\<close> whose \<^verbatim>\<open>__str__\<close> raises \<open>x\<close>,
  whereas \<open>Exception c\<close> is one that \<^verbatim>\<open>str\<close> turns into a text, as every built-in
  exception is.
\<close>

datatype exn = Exception string | Unprintable string exn | BaseExceptionOnly string

fun is_Exception :: "exn \<Rightarrow> bool" where
  "is_Exception (Exception c) = True"
| "is_Exception (Unprintable c x) = True"
| "is_Exception (BaseExceptionOnly c) = False"

text \<open>
  The f-strings of the handlers contain \<^verbatim>\<open>{e}\<close>, which calls \<^verbatim>\<open>str(e)\<close> before anything
  is logged: \<open>str_raises e\<close> is \<open>Some x\<close> when that call raises \<open>x\<close>.
\<close>

fun str_raises :: "exn \<Rightarrow> exn option" where
  "str_raises (Unprintable c x) = Some x"
| "str_raises e = None"

datatype level = ERROR | INFO

text \<open>One constructor for each logging call of \<^verbatim>\<open>main.py\<close>, with the values it formats.\<close>

datatype msg =
    Module_file_not_found pyval
  | Failed_to_load_spec pyval
  | Error_loading_module pyval exn
  | Task_id_not_found pyval
  | No_location pyval
  | Running_task pyval pyval
  | Failed_to_load_task_module pyval
  | No_run_function pyval
  | Task_completed pyval pyval
  | Error_executing_task pyval exn
  | Executing_cron_event pyval
  | Failed_to_load_event pyval
  | No_task_id_function pyval
  | Returned_None pyval
  | Returned_task_id pyval pyval
  | Error_executing_cron_event pyval exn
  | Invalid_job_definition nat pyval
  | Invalid_cron_format string
  | Scheduled_job nat string pyval
  | Error_adding_job nat exn

text \<open>Python's truth value, as \<^verbatim>\<open>not x\<close> tests it.\<close>

fun truthy :: "pyval \<Rightarrow> bool" where
  "truthy PNone = False"
| "truthy (PBool b) = b"
| "truthy (PInt i) = (i \<noteq> 0)"
| "truthy (PFloat r) = (r \<noteq> 0)"
| "truthy (PStr s) = (s \<noteq> [])"
| "truthy (PList xs) = (xs \<noteq> [])"
| "truthy (PDict kvs) = (kvs \<noteq> [])"

text \<open>
  \<^verbatim>\<open>x.get(key)\<close>: only a dictionary has the method; a missing key gives \<^verbatim>\<open>None\<close>.
\<close>

fun py_get :: "pyval \<Rightarrow> string \<Rightarrow> exn + pyval" where
  "py_get (PDict kvs) key = Inr (case map_of kvs key of None \<Rightarrow> PNone | Some v \<Rightarrow> v)"
| "py_get _ key = Inl (Exception ''AttributeError'')"

text \<open>
  \<^verbatim>\<open>key in d\<close> followed by \<^verbatim>\<open>d[key]\<close> on a dictionary with string keys: a list or a
  dictionary is unhashable (\<^verbatim>\<open>TypeError\<close>), a string is looked up, and any other value
  is hashable and equal to no string.
\<close>

fun dict_lookup :: "(string \<rightharpoonup> pyval) \<Rightarrow> pyval \<Rightarrow> exn + (string \<times> pyval) option" where
  "dict_lookup d (PStr k) = Inr (case d k of None \<Rightarrow> None | Some v \<Rightarrow> Some (k, v))"
| "dict_lookup d (PList xs) = Inl (Exception ''TypeError'')"
| "dict_lookup d (PDict kvs) = Inl (Exception ''TypeError'')"
| "dict_lookup d _ = Inr None"

text \<open>
  \<^verbatim>\<open>str.isspace\<close> on the code points below 256, and \<^verbatim>\<open>str.split()\<close> without arguments:
  runs of whitespace separate the tokens and no token is empty.
\<close>

definition py_isspace :: "char \<Rightarrow> bool" where
  "py_isspace c = (of_char c \<in> {9, 10, 11, 12, 13, 28, 29, 30, 31, 32, 133, 160 :: nat})"

fun split_from :: "string \<Rightarrow> string \<Rightarrow> string list" where
  "split_from cur [] = (if cur = [] then [] else [cur])"
| "split_from cur (c # cs) =
     (if py_isspace c then (if cur = [] then split_from [] cs else cur # split_from [] cs)
      else split_from (cur @ [c]) cs)"

definition py_split :: "string \<Rightarrow> string list" where
  "py_split s = split_from [] s"

section \<open>The world outside: files, modules and their capabilities\<close>

text \<open>
  The loaded units are arbitrary code. Each of their entry points is a function of an
  opaque world \<open>'w\<close> (file system, clock, anything they touch) that returns a value or
  raises, and a new world. A module object exposes the two attributes the daemon looks
  for; \<open>None\<close> is an attribute that \<^verbatim>\<open>hasattr\<close> does not find.
\<close>

type_synonym 'w capability = "'w \<Rightarrow> (exn + pyval) \<times> 'w"

record 'w py_module =
  run_attr :: "'w capability option"
  task_id_attr :: "'w capability option"

text \<open>
  The library calls of \<^verbatim>\<open>load_module_from_file\<close>: \<^verbatim>\<open>Path(p).exists()\<close>,
  \<^verbatim>\<open>Path(p).stem\<close>, \<^verbatim>\<open>importlib.util.spec_from_file_location\<close> (\<open>True\<close> when
  neither the spec nor its loader is \<^verbatim>\<open>None\<close>), and \<^verbatim>\<open>module_from_spec\<close> followed by
  \<^verbatim>\<open>exec_module\<close>, which runs the top-level code of the file.
\<close>

record 'w env =
  path_exists :: "string \<Rightarrow> 'w \<Rightarrow> exn + bool"
  path_stem :: "string \<Rightarrow> string"
  spec_from_file_location :: "string \<Rightarrow> string \<Rightarrow> 'w \<Rightarrow> exn + bool"
  exec_module :: "string \<Rightarrow> string \<Rightarrow> 'w \<Rightarrow> (exn + 'w py_module) \<times> 'w"

text \<open>
  The calls into foreign code are recorded in a trace, so that "invoked once" and
  "nothing is executed" are statements about the state.
\<close>

datatype event = Exec_module string string | Call_task_id | Call_run

record 'w state =
  world :: 'w
  logs :: "(level \<times> msg) list"
  trace :: "event list"

definition logger_error :: "msg \<Rightarrow> 'w state \<Rightarrow> 'w state" where
  "logger_error m s = s\<lparr>logs := logs s @ [(ERROR, m)]\<rparr>"

definition logger_info :: "msg \<Rightarrow> 'w state \<Rightarrow> 'w state" where
  "logger_info m s = s\<lparr>logs := logs s @ [(INFO, m)]\<rparr>"

text \<open>
  \<^verbatim>\<open>try: ... except Exception as e: handler\<close>: the handler runs on an instance of
  \<^verbatim>\<open>Exception\<close>, and its outcome, a value or an exception of its own, is the outcome of
  the statement; any other outcome of the body is the outcome of the statement.
\<close>

definition except_Exception ::
  "(exn \<Rightarrow> 's \<Rightarrow> (exn + 'a) \<times> 's) \<Rightarrow> (exn + 'a) \<times> 's \<Rightarrow> (exn + 'a) \<times> 's" where
  "except_Exception handler r =
     (case r of
        (Inl e, s) \<Rightarrow> if is_Exception e then handler e s else (Inl e, s)
      | (Inr a, s) \<Rightarrow> (Inr a, s))"

text \<open>
  The three handlers of the daemon's functions: each formats the exception into the
  message, outside any \<^verbatim>\<open>try\<close>, logs the message as an error and lets the function
  return.
\<close>

definition load_module_handler ::
  "pyval \<Rightarrow> exn \<Rightarrow> 'w state \<Rightarrow> (exn + 'w py_module option) \<times> 'w state" where
  "load_module_handler file_path e s =
     (case str_raises e of
        Some x \<Rightarrow> (Inl x, s)
      | None \<Rightarrow> (Inr None, logger_error (Error_loading_module file_path e) s))"

definition run_task_handler :: "pyval \<Rightarrow> exn \<Rightarrow> 'w state \<Rightarrow> (exn + unit) \<times> 'w state" where
  "run_task_handler task_id e s =
     (case str_raises e of
        Some x \<Rightarrow> (Inl x, s)
      | None \<Rightarrow> (Inr (), logger_error (Error_executing_task task_id e) s))"

definition cron_event_handler :: "pyval \<Rightarrow> exn \<Rightarrow> 'w state \<Rightarrow> (exn + unit) \<times> 'w state" where
  "cron_event_handler event_script_path e s =
     (case str_raises e of
        Some x \<Rightarrow> (Inl x, s)
      | None \<Rightarrow> (Inr (), logger_error (Error_executing_cron_event event_script_path e) s))"

section \<open>\<^verbatim>\<open>load_module_from_file\<close>\<close>

definition load_module_body ::
  "'w env \<Rightarrow> pyval \<Rightarrow> string option \<Rightarrow> 'w state \<Rightarrow> (exn + 'w py_module option) \<times> 'w state" where
  "load_module_body env file_path module_name s =
     (case file_path of
        PStr p \<Rightarrow>
          (case path_exists env p (world s) of
             Inl e \<Rightarrow> (Inl e, s)
           | Inr False \<Rightarrow> (Inr None, logger_error (Module_file_not_found file_path) s)
           | Inr True \<Rightarrow>
               (let name = (case module_name of None \<Rightarrow> path_stem env p | Some n \<Rightarrow> n) in
                case spec_from_file_location env name p (world s) of
                  Inl e \<Rightarrow> (Inl e, s)
                | Inr False \<Rightarrow> (Inr None, logger_error (Failed_to_load_spec file_path) s)
                | Inr True \<Rightarrow>
                    (case exec_module env name p (world s) of
                       (r, w') \<Rightarrow>
                         (let s' = s\<lparr>world := w', trace := trace s @ [Exec_module p name]\<rparr> in
                          case r of
                            Inl e \<Rightarrow> (Inl e, s')
                          | Inr m \<Rightarrow> (Inr (Some m), s')))))
      | _ \<Rightarrow> (Inl (Exception ''TypeError''), s))"

definition load_module_from_file ::
  "'w env \<Rightarrow> pyval \<Rightarrow> string option \<Rightarrow> 'w state \<Rightarrow> (exn + 'w py_module option) \<times> 'w state" where
  "load_module_from_file env file_path module_name s =
     except_Exception (load_module_handler file_path)
       (load_module_body env file_path module_name s)"

section \<open>\<^verbatim>\<open>run_task\<close>\<close>

definition run_task_body ::
  "'w env \<Rightarrow> pyval \<Rightarrow> (string \<rightharpoonup> pyval) \<Rightarrow> 'w state \<Rightarrow> (exn + unit) \<times> 'w state" where
  "run_task_body env task_id task_definitions s =
     (case dict_lookup task_definitions task_id of
        Inl e \<Rightarrow> (Inl e, s)
      | Inr None \<Rightarrow> (Inr (), logger_error (Task_id_not_found task_id) s)
      | Inr (Some (k, task_info)) \<Rightarrow>
          (case py_get task_info ''location'' of
             Inl e \<Rightarrow> (Inl e, s)
           | Inr task_location \<Rightarrow>
               if \<not> truthy task_location
               then (Inr (), logger_error (No_location task_id) s)
               else
                 (case load_module_from_file env task_location (Some (''task_'' @ k))
                         (logger_info (Running_task task_id task_location) s) of
                    (Inl e, s2) \<Rightarrow> (Inl e, s2)
                  | (Inr None, s2) \<Rightarrow>
                      (Inr (), logger_error (Failed_to_load_task_module task_id) s2)
                  | (Inr (Some task_module), s2) \<Rightarrow>
                      (case run_attr task_module of
                         None \<Rightarrow> (Inr (), logger_error (No_run_function task_id) s2)
                       | Some run \<Rightarrow>
                           (case run (world s2) of
                              (r, w3) \<Rightarrow>
                                (let s3 = s2\<lparr>world := w3, trace := trace s2 @ [Call_run]\<rparr> in
                                 case r of
                                   Inl e \<Rightarrow> (Inl e, s3)
                                 | Inr result \<Rightarrow>
                                     (Inr (), logger_info (Task_completed task_id result) s3)))))))"

definition run_task ::
  "'w env \<Rightarrow> pyval \<Rightarrow> (string \<rightharpoonup> pyval) \<Rightarrow> 'w state \<Rightarrow> (exn + unit) \<times> 'w state" where
  "run_task env task_id task_definitions s =
     except_Exception (run_task_handler task_id)
       (run_task_body env task_id task_definitions s)"

section \<open>\<^verbatim>\<open>execute_cron_event\<close>\<close>

definition execute_cron_event_body ::
  "'w env \<Rightarrow> pyval \<Rightarrow> (string \<rightharpoonup> pyval) \<Rightarrow> 'w state \<Rightarrow> (exn + unit) \<times> 'w state" where
  "execute_cron_event_body env event_script_path task_definitions s =
     (case load_module_from_file env event_script_path None
             (logger_info (Executing_cron_event event_script_path) s) of
        (Inl e, s1) \<Rightarrow> (Inl e, s1)
      | (Inr None, s1) \<Rightarrow> (Inr (), logger_error (Failed_to_load_event event_script_path) s1)
      | (Inr (Some event_module), s1) \<Rightarrow>
          (case task_id_attr event_module of
             None \<Rightarrow> (Inr (), logger_error (No_task_id_function event_script_path) s1)
           | Some task_id \<Rightarrow>
               (case task_id (world s1) of
                  (r, w2) \<Rightarrow>
                    (let s2 = s1\<lparr>world := w2, trace := trace s1 @ [Call_task_id]\<rparr> in
                     case r of
                       Inl e \<Rightarrow> (Inl e, s2)
                     | Inr task_id_result \<Rightarrow>
                         if task_id_result = PNone
                         then (Inr (), logger_info (Returned_None event_script_path) s2)
                         else run_task env task_id_result task_definitions
                                (logger_info (Returned_task_id event_script_path task_id_result) s2)))))"

definition execute_cron_event ::
  "'w env \<Rightarrow> pyval \<Rightarrow> (string \<rightharpoonup> pyval) \<Rightarrow> 'w state \<Rightarrow> (exn + unit) \<times> 'w state" where
  "execute_cron_event env event_script_path task_definitions s =
     except_Exception (cron_event_handler event_script_path)
       (execute_cron_event_body env event_script_path task_definitions s)"

section \<open>\<^verbatim>\<open>setup_scheduler\<close>\<close>

text \<open>
  \<^verbatim>\<open>CronTrigger\<close> belongs to the APScheduler library. It is a parameter of the model: a
  function of the five field strings that returns a trigger or raises. A registered job
  keeps the index of its entry (its id is \<^verbatim>\<open>cron_job_<idx>\<close>), its trigger and the
  arguments \<^verbatim>\<open>execute_cron_event\<close> will be called with.
\<close>

type_synonym 't cron_trigger =
  "string \<Rightarrow> string \<Rightarrow> string \<Rightarrow> string \<Rightarrow> string \<Rightarrow> exn + 't"

record 't job =
  job_id :: nat
  job_trigger :: 't
  job_args :: "pyval \<times> (string \<rightharpoonup> pyval)"

type_synonym 't sched_state = "'t job list \<times> (level \<times> msg) list"

text \<open>
  Modelled from the spec: the Trigger Registry's \<^verbatim>\<open>register(schedule, eventReference)\<close>,
  behind \<^verbatim>\<open>scheduler.add_job\<close>, appends one trigger to the ordered sequence of
  registered triggers.
\<close>

definition add_job :: "'t job \<Rightarrow> 't sched_state \<Rightarrow> 't sched_state" where
  "add_job j st = (fst st @ [j], snd st)"

definition sched_log :: "level \<Rightarrow> msg \<Rightarrow> 't sched_state \<Rightarrow> 't sched_state" where
  "sched_log l m st = (fst st, snd st @ [(l, m)])"

text \<open>
  The body of the \<^verbatim>\<open>try\<close> statement for one entry. Only a string has \<^verbatim>\<open>split\<close>; a
  \<^verbatim>\<open>continue\<close> inside the body ends it normally.
\<close>

definition add_cron_job ::
  "'t cron_trigger \<Rightarrow> (string \<rightharpoonup> pyval) \<Rightarrow> nat \<Rightarrow> pyval \<Rightarrow> pyval \<Rightarrow> 't sched_state
     \<Rightarrow> (exn + unit) \<times> 't sched_state" where
  "add_cron_job CronTrigger task_definitions idx cron_expression task_reference st =
     (case cron_expression of
        PStr c \<Rightarrow>
          (let parts = py_split c in
           if length parts \<noteq> 5
           then (Inr (), sched_log ERROR (Invalid_cron_format c) st)
           else
             (case CronTrigger (parts ! 0) (parts ! 1) (parts ! 2) (parts ! 3) (parts ! 4) of
                Inl e \<Rightarrow> (Inl e, st)
              | Inr trig \<Rightarrow>
                  (Inr (),
                   sched_log INFO (Scheduled_job idx c task_reference)
                     (add_job \<lparr>job_id = idx, job_trigger = trig,
                               job_args = (task_reference, task_definitions)\<rparr> st))))
      | _ \<Rightarrow> (Inl (Exception ''AttributeError''), st))"

text \<open>
  The handler of the \<^verbatim>\<open>try\<close> statement in the loop, and the loop over
  \<^verbatim>\<open>enumerate(cron_jobs)\<close>. The two \<^verbatim>\<open>job.get\<close> calls are outside the \<^verbatim>\<open>try\<close>
  statement: what they raise leaves \<^verbatim>\<open>setup_scheduler\<close>.
\<close>

definition add_job_handler ::
  "nat \<Rightarrow> exn \<Rightarrow> 't sched_state \<Rightarrow> (exn + unit) \<times> 't sched_state" where
  "add_job_handler idx e st =
     (case str_raises e of
        Some x \<Rightarrow> (Inl x, st)
      | None \<Rightarrow> (Inr (), sched_log ERROR (Error_adding_job idx e) st))"

fun setup_loop ::
  "'t cron_trigger \<Rightarrow> (string \<rightharpoonup> pyval) \<Rightarrow> nat \<Rightarrow> pyval list \<Rightarrow> 't sched_state
     \<Rightarrow> exn + 't sched_state" where
  "setup_loop CronTrigger task_definitions idx [] st = Inr st"
| "setup_loop CronTrigger task_definitions idx (job # rest) st =
     (case py_get job ''cron'' of
        Inl e \<Rightarrow> Inl e
      | Inr cron_expression \<Rightarrow>
          (case py_get job ''task-reference'' of
             Inl e \<Rightarrow> Inl e
           | Inr task_reference \<Rightarrow>
               if \<not> truthy cron_expression \<or> \<not> truthy task_reference
               then setup_loop CronTrigger task_definitions (Suc idx) rest
                      (sched_log ERROR (Invalid_job_definition idx job) st)
               else
                 (case except_Exception (add_job_handler idx)
                         (add_cron_job CronTrigger task_definitions idx cron_expression
                            task_reference st) of
                    (Inl e, st') \<Rightarrow> Inl e
                  | (Inr u, st') \<Rightarrow>
                      setup_loop CronTrigger task_definitions (Suc idx) rest st')))"

definition setup_scheduler ::
  "'t cron_trigger \<Rightarrow> pyval list \<Rightarrow> (string \<rightharpoonup> pyval) \<Rightarrow> (level \<times> msg) list
     \<Rightarrow> exn + 't sched_state" where
  "setup_scheduler CronTrigger cron_jobs task_definitions lg =
     setup_loop CronTrigger task_definitions 0 cron_jobs ([], lg)"

section \<open>Notions used in the statements\<close>

text \<open>
  A value is in the catalog when it is a string that is one of its keys. A list or a
  dictionary cannot be hashed, so the membership test itself fails on it.
\<close>

definition unhashable :: "pyval \<Rightarrow> bool" where
  "unhashable v = (case v of PList xs \<Rightarrow> True | PDict kvs \<Rightarrow> True | _ \<Rightarrow> False)"

definition in_catalog :: "(string \<rightharpoonup> pyval) \<Rightarrow> pyval \<Rightarrow> bool" where
  "in_catalog d v = (case v of PStr k \<Rightarrow> d k \<noteq> None | _ \<Rightarrow> False)"

text \<open>The error that \<^verbatim>\<open>run_task\<close> logs for an identifier that is not in the catalog.\<close>

definition lookup_error :: "pyval \<Rightarrow> msg" where
  "lookup_error v =
     (if unhashable v then Error_executing_task v (Exception ''TypeError'')
      else Task_id_not_found v)"

text \<open>
  A well-formed job entry, in the words of the specification: it has a cron expression
  and an event reference, the expression has five whitespace-separated fields, and the
  trigger constructor accepts them. \<open>entry_trigger\<close> gives the trigger and the reference
  of a well-formed entry and \<open>None\<close> for a malformed one.
\<close>

definition entry_trigger :: "'t cron_trigger \<Rightarrow> pyval \<Rightarrow> ('t \<times> pyval) option" where
  "entry_trigger CronTrigger job =
     (case (py_get job ''cron'', py_get job ''task-reference'') of
        (Inr (PStr c), Inr r) \<Rightarrow>
          if truthy r \<and> length (py_split c) = 5
          then (case CronTrigger (py_split c ! 0) (py_split c ! 1) (py_split c ! 2)
                       (py_split c ! 3) (py_split c ! 4) of
                  Inr t \<Rightarrow> Some (t, r)
                | Inl e \<Rightarrow> None)
          else None
      | _ \<Rightarrow> None)"

definition entry_level :: "'t cron_trigger \<Rightarrow> pyval \<Rightarrow> level" where
  "entry_level CronTrigger job =
     (case entry_trigger CronTrigger job of None \<Rightarrow> ERROR | Some tr \<Rightarrow> INFO)"

text \<open>The jobs of the well-formed entries of a list, numbered from \<open>idx\<close>.\<close>

fun registered :: "'t cron_trigger \<Rightarrow> (string \<rightharpoonup> pyval) \<Rightarrow> nat \<Rightarrow> pyval list \<Rightarrow> 't job list" where
  "registered CronTrigger defs idx [] = []"
| "registered CronTrigger defs idx (job # rest) =
     (case entry_trigger CronTrigger job of
        None \<Rightarrow> []
      | Some (t, r) \<Rightarrow> [\<lparr>job_id = idx, job_trigger = t, job_args = (r, defs)\<rparr>])
     @ registered CronTrigger defs (Suc idx) rest"

section \<open>A sample installation\<close>

text \<open>
  A small installation on which the model is evaluated. Its world counts how many times
  foreign code has run. \<^verbatim>\<open>task/example-task.py\<close> is the task of the repository: its
  \<^verbatim>\<open>run\<close> returns \<^verbatim>\<open>True\<close>. The other files are event scripts and tasks that fail in
  the ways the daemon has to cope with; \<^verbatim>\<open>BrokenError\<close> is a class of exceptions whose
  \<^verbatim>\<open>__str__\<close> raises \<^verbatim>\<open>TypeError\<close>.
\<close>

definition returns :: "pyval \<Rightarrow> nat capability" where
  "returns v w = (Inr v, Suc w)"

definition raises :: "exn \<Rightarrow> nat capability" where
  "raises e w = (Inl e, Suc w)"

definition sample_files :: "(string \<times> (exn + nat py_module)) list" where
  "sample_files =
     [(''event.py'', Inr \<lparr>run_attr = None, task_id_attr = Some (returns (PStr ''example''))\<rparr>),
      (''idle_event.py'', Inr \<lparr>run_attr = None, task_id_attr = Some (returns PNone)\<rparr>),
      (''blank_event.py'', Inr \<lparr>run_attr = None, task_id_attr = Some (returns (PStr ''''))\<rparr>),
      (''task/example-task.py'', Inr \<lparr>run_attr = Some (returns (PBool True)), task_id_attr = None\<rparr>),
      (''task/failing.py'', Inr \<lparr>run_attr = Some (raises (Exception ''RuntimeError'')), task_id_attr = None\<rparr>),
      (''task/exiting.py'', Inr \<lparr>run_attr = Some (raises (BaseExceptionOnly ''SystemExit'')), task_id_attr = None\<rparr>),
      (''task/empty.py'', Inr \<lparr>run_attr = None, task_id_attr = None\<rparr>),
      (''task/unprintable.py'',
         Inr \<lparr>run_attr = Some (raises (Unprintable ''BrokenError'' (Exception ''TypeError''))),
              task_id_attr = None\<rparr>),
      (''task/unprintable_import.py'', Inl (Unprintable ''BrokenError'' (Exception ''TypeError''))),
      (''task/broken.py'', Inl (Exception ''SyntaxError'')),
      (''task/exit_on_import.py'', Inl (BaseExceptionOnly ''SystemExit''))]"

definition sample_env :: "nat env" where
  "sample_env =
     \<lparr>path_exists = (\<lambda>p w. Inr (p = ''notes.txt'' \<or> map_of sample_files p \<noteq> None)),
      path_stem = (\<lambda>p. takeWhile (\<lambda>c. c \<noteq> CHR ''.'')
                         (rev (takeWhile (\<lambda>c. c \<noteq> CHR ''/'') (rev p)))),
      spec_from_file_location = (\<lambda>n p w. Inr (map_of sample_files p \<noteq> None)),
      exec_module = (\<lambda>n p w.
         (case map_of sample_files p of
            Some r \<Rightarrow> (r, Suc w)
          | None \<Rightarrow> (Inl (Exception ''FileNotFoundError''), w)))\<rparr>"

definition sample_definitions :: "string \<rightharpoonup> pyval" where
  "sample_definitions =
     map_of
       [(''example'', PDict [(''location'', PStr ''task/example-task.py'')]),
        (''failing'', PDict [(''location'', PStr ''task/failing.py'')]),
        (''exiting'', PDict [(''location'', PStr ''task/exiting.py'')]),
        (''empty'', PDict [(''location'', PStr ''task/empty.py'')]),
        (''unprintable'', PDict [(''location'', PStr ''task/unprintable.py'')]),
        (''unplaced'', PDict [(''description'', PStr ''no location'')]),
        (''blank'', PDict [(''location'', PStr '''')])]"

definition start :: "nat state" where
  "start = \<lparr>world = 0, logs = [], trace = []\<rparr>"

text \<open>
  A stand-in for the trigger constructor: it keeps the five fields and rejects the
  minute 60.
\<close>

definition sample_trigger :: "(string \<times> string \<times> string \<times> string \<times> string) cron_trigger" where
  "sample_trigger minute hour day month day_of_week =
     (if minute = ''60'' then Inl (Exception ''ValueError'')
      else Inr (minute, hour, day, month, day_of_week))"

definition sample_cron_jobs :: "pyval list" where
  "sample_cron_jobs =
     [PDict [(''cron'', PStr ''* * * * *''), (''task-reference'', PStr ''event.py'')],
      PDict [(''task-reference'', PStr ''event.py'')],
      PDict [(''cron'', PStr ''0 9 * * 1'')],
      PDict [(''cron'', PStr ''0 9 * *''), (''task-reference'', PStr ''event.py'')],
      PDict [(''cron'', PStr ''60 9 * * 1''), (''task-reference'', PStr ''event.py'')],
      PDict [(''cron'', PStr ''0 9 * * 1''), (''task-reference'', PStr ''idle_event.py'')]]"

text \<open>A list with a \<^verbatim>\<open>null\<close> entry in front of a well-formed one.\<close>

definition null_entry_jobs :: "pyval list" where
  "null_entry_jobs =
     [PNone,
      PDict [(''cron'', PStr ''* * * * *''), (''task-reference'', PStr ''event.py'')]]"

lemmas sample_defs = sample_env_def sample_files_def sample_definitions_def start_def
  returns_def raises_def

lemmas model_defs = run_task_def run_task_body_def load_module_from_file_def load_module_body_def
  execute_cron_event_def execute_cron_event_body_def
  except_Exception_def load_module_handler_def run_task_handler_def cron_event_handler_def
  logger_error_def logger_info_def

section \<open>Basic facts\<close>

lemma except_Exception_simps [simp]:
  "except_Exception h (Inr a, s) = (Inr a, s)"
  "except_Exception h (Inl (BaseExceptionOnly x), s) = (Inl (BaseExceptionOnly x), s)"
  "except_Exception h (Inl (Exception c), s) = h (Exception c) s"
  "except_Exception h (Inl (Unprintable c y), s) = h (Unprintable c y) s"
  by (simp_all add: except_Exception_def)

lemma handler_simps [simp]:
  "load_module_handler fp (Exception c) s =
     (Inr None, logger_error (Error_loading_module fp (Exception c)) s)"
  "load_module_handler fp (Unprintable c x) s = (Inl x, s)"
  "run_task_handler t (Exception c) s =
     (Inr (), logger_error (Error_executing_task t (Exception c)) s)"
  "run_task_handler t (Unprintable c x) s = (Inl x, s)"
  "cron_event_handler p (Exception c) s =
     (Inr (), logger_error (Error_executing_cron_event p (Exception c)) s)"
  "cron_event_handler p (Unprintable c x) s = (Inl x, s)"
  by (simp_all add: load_module_handler_def run_task_handler_def cron_event_handler_def)

lemma handler_trace:
  "trace (snd (load_module_handler fp e s)) = trace s"
  "trace (snd (run_task_handler t e s)) = trace s"
  "trace (snd (cron_event_handler p e s)) = trace s"
  by (cases e;
      simp add: load_module_handler_def run_task_handler_def cron_event_handler_def
        logger_error_def)+

lemma except_Exception_trace:
  assumes "\<And>e s. trace (snd (h e s)) = trace s"
  shows "trace (snd (except_Exception h (r0, s0))) = trace s0"
  using assms by (cases r0) (auto simp: except_Exception_def)

lemma logger_simps [simp]:
  "world (logger_error m s) = world s" "trace (logger_error m s) = trace s"
  "logs (logger_error m s) = logs s @ [(ERROR, m)]"
  "world (logger_info m s) = world s" "trace (logger_info m s) = trace s"
  "logs (logger_info m s) = logs s @ [(INFO, m)]"
  by (simp_all add: logger_error_def logger_info_def)

lemma py_split_Nil [simp]: "py_split [] = []"
  by (simp add: py_split_def)

lemma load_module_body_trace:
  assumes "load_module_body env p n s = (r, s')"
  shows "trace s' = trace s \<or> (\<exists>a b. trace s' = trace s @ [Exec_module a b])"
  using assms
  by (auto simp: load_module_body_def Let_def split: pyval.splits sum.splits bool.splits prod.splits)

lemma load_module_body_logs:
  assumes "load_module_body env p n s = (r, s')"
  shows "(r = Inr None \<longrightarrow> (\<exists>m. logs s' = logs s @ [(ERROR, m)]))
       \<and> (r \<noteq> Inr None \<longrightarrow> logs s' = logs s)"
  using assms
  by (auto simp: load_module_body_def Let_def split: pyval.splits sum.splits bool.splits prod.splits)

lemma load_module_body_missing:
  assumes "path_exists env p (world s) = Inr False"
  shows "fst (load_module_body env (PStr p) n s) = Inr None"
  using assms by (simp add: load_module_body_def)

lemma load_module_body_exists_raises:
  assumes "path_exists env p (world s) = Inl e"
  shows "fst (load_module_body env (PStr p) n s) = Inl e"
  using assms by (simp add: load_module_body_def)

lemma load_module_body_no_spec:
  assumes "path_exists env p (world s) = Inr True"
    and "spec_from_file_location env (case n of None \<Rightarrow> path_stem env p | Some n' \<Rightarrow> n') p
           (world s) = Inr False"
  shows "fst (load_module_body env (PStr p) n s) = Inr None"
  using assms by (simp add: load_module_body_def)

lemma load_module_body_spec_raises:
  assumes "path_exists env p (world s) = Inr True"
    and "spec_from_file_location env (case n of None \<Rightarrow> path_stem env p | Some n' \<Rightarrow> n') p
           (world s) = Inl e"
  shows "fst (load_module_body env (PStr p) n s) = Inl e"
  using assms by (simp add: load_module_body_def)

lemma load_module_body_exec_raises:
  assumes "path_exists env p (world s) = Inr True"
    and "spec_from_file_location env (case n of None \<Rightarrow> path_stem env p | Some n' \<Rightarrow> n') p
           (world s) = Inr True"
    and "fst (exec_module env (case n of None \<Rightarrow> path_stem env p | Some n' \<Rightarrow> n') p
           (world s)) = Inl e"
  shows "fst (load_module_body env (PStr p) n s) = Inl e"
  using assms by (auto simp: load_module_body_def Let_def split: prod.splits)

lemma load_module_from_file_of_body:
  "fst (load_module_body env fp n s) = Inr m \<Longrightarrow> fst (load_module_from_file env fp n s) = Inr m"
  "fst (load_module_body env fp n s) = Inl (Exception c) \<Longrightarrow>
     fst (load_module_from_file env fp n s) = Inr None"
  "fst (load_module_body env fp n s) = Inl (BaseExceptionOnly x) \<Longrightarrow>
     fst (load_module_from_file env fp n s) = Inl (BaseExceptionOnly x)"
  by (cases "load_module_body env fp n s"; simp add: load_module_from_file_def)+

lemma load_module_from_file_trace:
  assumes "load_module_from_file env p n s = (r, s')"
  shows "trace s' = trace s \<or> (\<exists>a b. trace s' = trace s @ [Exec_module a b])"
proof -
  obtain r0 s0 where b: "load_module_body env p n s = (r0, s0)"
    by (cases "load_module_body env p n s")
  from load_module_body_trace [OF b] have t: "trace s0 = trace s \<or> (\<exists>a b. trace s0 = trace s @ [Exec_module a b])" .
  have "trace (snd (except_Exception (load_module_handler p) (r0, s0))) = trace s0"
    by (rule except_Exception_trace) (rule handler_trace)
  with assms b have "trace s' = trace s0"
    by (simp add: load_module_from_file_def)
  with t show ?thesis by simp
qed

lemma load_module_from_file_counts:
  assumes "load_module_from_file env p n s = (r, s')"
  shows "count_list (trace s') Call_run = count_list (trace s) Call_run
       \<and> count_list (trace s') Call_task_id = count_list (trace s) Call_task_id"
  using load_module_from_file_trace [OF assms] by auto

lemma run_task_body_counts:
  assumes "run_task_body env t d s = (r, s')"
  shows "count_list (trace s') Call_task_id = count_list (trace s) Call_task_id
       \<and> count_list (trace s') Call_run \<le> Suc (count_list (trace s) Call_run)"
  using assms
  by (auto simp: run_task_body_def Let_def
      split: sum.splits option.splits prod.splits if_splits
      dest!: load_module_from_file_counts)

lemma run_task_counts:
  assumes "run_task env t d s = (r, s')"
  shows "count_list (trace s') Call_task_id = count_list (trace s) Call_task_id
       \<and> count_list (trace s') Call_run \<le> Suc (count_list (trace s) Call_run)"
proof -
  obtain r0 s0 where b: "run_task_body env t d s = (r0, s0)"
    by (cases "run_task_body env t d s")
  have "trace (snd (except_Exception (run_task_handler t) (r0, s0))) = trace s0"
    by (rule except_Exception_trace) (rule handler_trace)
  with assms b have "trace s' = trace s0"
    by (simp add: run_task_def)
  with run_task_body_counts [OF b] show ?thesis by simp
qed

lemma run_task_absent:
  assumes "\<not> in_catalog d t"
  shows "run_task env t d s = (Inr (), logger_error (lookup_error t) s)"
  using assms
  by (cases t)
     (simp_all add: in_catalog_def unhashable_def lookup_error_def run_task_def
        run_task_body_def)

lemma execute_cron_event_decided:
  assumes "load_module_from_file env p None (logger_info (Executing_cron_event p) s)
             = (Inr (Some event_module), s1)"
    and "task_id_attr event_module = Some decide"
    and "decide (world s1) = (Inr v, w2)"
  shows "execute_cron_event env p d s =
           (if v = PNone
            then (Inr (), logger_info (Returned_None p)
                            (s1\<lparr>world := w2, trace := trace s1 @ [Call_task_id]\<rparr>))
            else except_Exception (cron_event_handler p)
                   (run_task env v d
                      (logger_info (Returned_task_id p v)
                         (s1\<lparr>world := w2, trace := trace s1 @ [Call_task_id]\<rparr>))))"
  using assms by (simp add: execute_cron_event_def execute_cron_event_body_def)

lemma except_Exception_not_caught:
  assumes "\<forall>e. fst r = Inl e \<longrightarrow> \<not> is_Exception e"
  shows "except_Exception h r = r"
  using assms by (cases r; cases "fst r") (auto simp: except_Exception_def)

lemma execute_cron_event_raised:
  assumes "load_module_from_file env p None (logger_info (Executing_cron_event p) s)
             = (Inr (Some event_module), s1)"
    and "task_id_attr event_module = Some decide"
    and "decide (world s1) = (Inl e, w2)"
  shows "trace (snd (execute_cron_event env p d s)) = trace s1 @ [Call_task_id]"
proof -
  have "execute_cron_event_body env p d s =
          (Inl e, s1\<lparr>world := w2, trace := trace s1 @ [Call_task_id]\<rparr>)"
    using assms by (simp add: execute_cron_event_body_def)
  moreover
  have "trace (snd (except_Exception (cron_event_handler p)
          (Inl e, s1\<lparr>world := w2, trace := trace s1 @ [Call_task_id]\<rparr>)))
        = trace (s1\<lparr>world := w2, trace := trace s1 @ [Call_task_id]\<rparr>)"
    by (rule except_Exception_trace) (rule handler_trace)
  ultimately show ?thesis by (simp add: execute_cron_event_def)
qed

lemma setup_loop_step:
  assumes "job = PDict kvs"
    and "\<forall>m h d mo dw e. CronTrigger m h d mo dw = Inl e \<longrightarrow> (\<exists>c. e = Exception c)"
  shows "\<exists>m. setup_loop CronTrigger defs idx (job # rest) (sched0, lg0) =
           setup_loop CronTrigger defs (Suc idx) rest
             (sched0 @ registered CronTrigger defs idx [job],
              lg0 @ [(entry_level CronTrigger job, m)])"
proof -
  obtain c where c: "py_get job ''cron'' = Inr c" using assms(1) by simp
  obtain r where r: "py_get job ''task-reference'' = Inr r" using assms(1) by simp
  show ?thesis
  proof (cases "truthy c \<and> truthy r")
    case False
    then have "entry_trigger CronTrigger job = None"
      using c r by (cases c) (auto simp: entry_trigger_def)
    with False c r show ?thesis
      by (auto simp: entry_level_def sched_log_def)
  next
    case True
    show ?thesis
    proof (cases "\<exists>e. c = PStr e")
      case False
      then have "entry_trigger CronTrigger job = None"
        using c r by (cases c) (auto simp: entry_trigger_def)
      with False True c r show ?thesis
        by (cases c)
           (auto simp: entry_level_def sched_log_def add_cron_job_def add_job_handler_def)
    next
      case True
      then obtain e where e: "c = PStr e" by blast
      show ?thesis
      proof (cases "length (py_split e) = 5")
        case False
        with e c r \<open>truthy c \<and> truthy r\<close> show ?thesis
          by (auto simp: entry_trigger_def entry_level_def sched_log_def add_cron_job_def
              except_Exception_def Let_def)
      next
        case True
        let ?t = "CronTrigger (py_split e ! 0) (py_split e ! 1) (py_split e ! 2)
                       (py_split e ! 3) (py_split e ! 4)"
        show ?thesis
        proof (cases ?t)
          case (Inr t)
          with True e c r \<open>truthy c \<and> truthy r\<close> show ?thesis
            by (auto simp: entry_trigger_def entry_level_def sched_log_def add_cron_job_def
              except_Exception_def Let_def add_job_def)
        next
          case (Inl x)
          with assms(2) obtain cl where "x = Exception cl" by blast
          with Inl True e c r \<open>truthy c \<and> truthy r\<close> show ?thesis
            by (auto simp: entry_trigger_def entry_level_def sched_log_def add_cron_job_def
              add_job_handler_def Let_def add_job_def)
        qed
      qed
    qed
  qed
qed

lemma setup_loop_spec:
  assumes "\<forall>job \<in> set jobs. \<exists>kvs. job = PDict kvs"
    and "\<forall>m h d mo dw e. CronTrigger m h d mo dw = Inl e \<longrightarrow> (\<exists>c. e = Exception c)"
  shows "\<exists>new. setup_loop CronTrigger defs idx jobs (sched0, lg0) =
           Inr (sched0 @ registered CronTrigger defs idx jobs, lg0 @ new)
         \<and> map fst new = map (entry_level CronTrigger) jobs"
  using assms(1)
proof (induction jobs arbitrary: idx sched0 lg0)
  case Nil
  then show ?case by simp
next
  case (Cons job rest)
  then obtain kvs where "job = PDict kvs" by auto
  from setup_loop_step [OF this assms(2)]
  obtain m where st: "setup_loop CronTrigger defs idx (job # rest) (sched0, lg0) =
           setup_loop CronTrigger defs (Suc idx) rest
             (sched0 @ registered CronTrigger defs idx [job],
              lg0 @ [(entry_level CronTrigger job, m)])" by blast
  from Cons.prems have "\<forall>job \<in> set rest. \<exists>kvs. job = PDict kvs" by simp
  from Cons.IH [OF this]
  obtain new where n: "setup_loop CronTrigger defs (Suc idx) rest
             (sched0 @ registered CronTrigger defs idx [job],
              lg0 @ [(entry_level CronTrigger job, m)]) =
           Inr ((sched0 @ registered CronTrigger defs idx [job])
                  @ registered CronTrigger defs (Suc idx) rest,
                (lg0 @ [(entry_level CronTrigger job, m)]) @ new)"
    and l: "map fst new = map (entry_level CronTrigger) rest" by blast
  show ?case
    apply (rule exI [of _ "(entry_level CronTrigger job, m) # new"])
    using st n l by simp
qed

lemma registered_set:
  "set (registered CronTrigger defs idx jobs) =
     {\<lparr>job_id = idx + i, job_trigger = t, job_args = (r, defs)\<rparr> | i t r.
        i < length jobs \<and> entry_trigger CronTrigger (jobs ! i) = Some (t, r)}"
proof (induction jobs arbitrary: idx)
  case Nil
  then show ?case by simp
next
  case (Cons job rest)
  have "{\<lparr>job_id = idx + i, job_trigger = t, job_args = (r, defs)\<rparr> | i t r.
        i < length (job # rest) \<and> entry_trigger CronTrigger ((job # rest) ! i) = Some (t, r)}
      = {\<lparr>job_id = idx, job_trigger = t, job_args = (r, defs)\<rparr> | t r.
           entry_trigger CronTrigger job = Some (t, r)}
        \<union> {\<lparr>job_id = Suc idx + i, job_trigger = t, job_args = (r, defs)\<rparr> | i t r.
        i < length rest \<and> entry_trigger CronTrigger (rest ! i) = Some (t, r)}"
    (is "?L = ?A \<union> ?B")
  proof (intro set_eqI iffI)
    fix j assume "j \<in> ?L"
    then obtain i t r where j: "j = \<lparr>job_id = idx + i, job_trigger = t, job_args = (r, defs)\<rparr>"
      and i: "i < length (job # rest)"
      and e: "entry_trigger CronTrigger ((job # rest) ! i) = Some (t, r)" by blast
    show "j \<in> ?A \<union> ?B"
    proof (cases i)
      case 0
      with j e show ?thesis by simp
    next
      case (Suc i')
      with j i e have "j \<in> ?B" by auto
      then show ?thesis by simp
    qed
  next
    fix j assume "j \<in> ?A \<union> ?B"
    then show "j \<in> ?L"
    proof
      assume "j \<in> ?A"
      then obtain t r where "j = \<lparr>job_id = idx + 0, job_trigger = t, job_args = (r, defs)\<rparr>"
        "entry_trigger CronTrigger ((job # rest) ! 0) = Some (t, r)" by auto
      then show ?thesis by blast
    next
      assume "j \<in> ?B"
      then obtain i t r where "j = \<lparr>job_id = idx + Suc i, job_trigger = t, job_args = (r, defs)\<rparr>"
        "Suc i < length (job # rest)"
        "entry_trigger CronTrigger ((job # rest) ! Suc i) = Some (t, r)" by auto
      then show ?thesis by blast
    qed
  qed
  moreover have "set (registered CronTrigger defs idx (job # rest)) = ?A \<union> ?B"
    using Cons.IH [of "Suc idx"] by (auto split: option.splits)
  ultimately show ?case by simp
qed

lemma registered_ids_sorted:
  "sorted_wrt (<) (map job_id (registered CronTrigger defs idx jobs))
   \<and> (\<forall>j \<in> set (registered CronTrigger defs idx jobs). idx \<le> job_id j)"
proof (induction jobs arbitrary: idx)
  case Nil
  then show ?case by simp
next
  case (Cons job rest)
  from Cons.IH [of "Suc idx"] show ?case
    by (auto simp: sorted_wrt_append split: option.splits)
qed

lemma sample_setup:
  "setup_scheduler sample_trigger sample_cron_jobs sample_definitions [] =
     Inr ([\<lparr>job_id = 0, job_trigger = (''*'', ''*'', ''*'', ''*'', ''*''),
             job_args = (PStr ''event.py'', sample_definitions)\<rparr>,
           \<lparr>job_id = 5, job_trigger = (''0'', ''9'', ''*'', ''*'', ''1''),
             job_args = (PStr ''idle_event.py'', sample_definitions)\<rparr>],
          [(INFO, Scheduled_job 0 ''* * * * *'' (PStr ''event.py'')),
           (ERROR, Invalid_job_definition 1 (PDict [(''task-reference'', PStr ''event.py'')])),
           (ERROR, Invalid_job_definition 2 (PDict [(''cron'', PStr ''0 9 * * 1'')])),
           (ERROR, Invalid_cron_format ''0 9 * *''),
           (ERROR, Error_adding_job 4 (Exception ''ValueError'')),
           (INFO, Scheduled_job 5 ''0 9 * * 1'' (PStr ''idle_event.py''))])"
  by (simp add: setup_scheduler_def sample_cron_jobs_def sample_trigger_def add_cron_job_def
      except_Exception_def add_job_handler_def sched_log_def add_job_def py_split_def
      py_isspace_def Let_def)

section \<open>Malformed job entries\<close>

text \<open>
  Let every entry of the configured list be a record and let the trigger constructor
  raise nothing but printable instances of \<^verbatim>\<open>Exception\<close>. Then \<^verbatim>\<open>setup_scheduler\<close>
  returns a scheduler and logs one record for each entry, in order. For a malformed
  entry (no cron expression, no event reference, a number of whitespace-separated fields
  other than five, or fields the constructor rejects) the record is an error and no
  registered job carries the index of the entry. For every other entry the record is
  informational and the job with its index, its trigger and its event reference is
  registered. Nothing else is registered, and the jobs are in the order of the entries.
\<close>

lemma setup_scheduler_skips_malformed:
  assumes "\<forall>job \<in> set cron_jobs. \<exists>kvs. job = PDict kvs"
    and "\<forall>m h d mo dw e. CronTrigger m h d mo dw = Inl e \<longrightarrow> (\<exists>c. e = Exception c)"
  shows "\<exists>sched new.
      setup_scheduler CronTrigger cron_jobs defs lg = Inr (sched, lg @ new)
      \<and> length new = length cron_jobs
      \<and> sorted_wrt (<) (map job_id sched)
      \<and> (\<forall>j \<in> set sched. job_id j < length cron_jobs
             \<and> entry_trigger CronTrigger (cron_jobs ! job_id j)
                 = Some (job_trigger j, fst (job_args j)))
      \<and> (\<forall>idx < length cron_jobs.
           case entry_trigger CronTrigger (cron_jobs ! idx) of
             None \<Rightarrow> fst (new ! idx) = ERROR \<and> idx \<notin> job_id ` set sched
           | Some (t, r) \<Rightarrow>
               fst (new ! idx) = INFO
               \<and> \<lparr>job_id = idx, job_trigger = t, job_args = (r, defs)\<rparr> \<in> set sched)"
proof -
  let ?sched = "registered CronTrigger defs 0 cron_jobs"
  from setup_loop_spec [OF assms, of defs 0 "[]" lg]
  obtain new where run: "setup_scheduler CronTrigger cron_jobs defs lg = Inr (?sched, lg @ new)"
    and lv: "map fst new = map (entry_level CronTrigger) cron_jobs"
    by (auto simp: setup_scheduler_def)
  from lv have len: "length new = length cron_jobs"
    using length_map by metis
  have lvl: "fst (new ! idx) = entry_level CronTrigger (cron_jobs ! idx)"
    if "idx < length cron_jobs" for idx
    using that lv len by (metis nth_map)
  have sorted: "sorted_wrt (<) (map job_id ?sched)"
    using registered_ids_sorted by blast
  have mem: "\<forall>j \<in> set ?sched. job_id j < length cron_jobs
             \<and> entry_trigger CronTrigger (cron_jobs ! job_id j)
                 = Some (job_trigger j, fst (job_args j))"
    by (auto simp: registered_set)
  have each: "\<forall>idx < length cron_jobs.
           case entry_trigger CronTrigger (cron_jobs ! idx) of
             None \<Rightarrow> fst (new ! idx) = ERROR \<and> idx \<notin> job_id ` set ?sched
           | Some (t, r) \<Rightarrow>
               fst (new ! idx) = INFO
               \<and> \<lparr>job_id = idx, job_trigger = t, job_args = (r, defs)\<rparr> \<in> set ?sched"
  proof (intro allI impI)
    fix idx assume i: "idx < length cron_jobs"
    show "case entry_trigger CronTrigger (cron_jobs ! idx) of
             None \<Rightarrow> fst (new ! idx) = ERROR \<and> idx \<notin> job_id ` set ?sched
           | Some (t, r) \<Rightarrow>
               fst (new ! idx) = INFO
               \<and> \<lparr>job_id = idx, job_trigger = t, job_args = (r, defs)\<rparr> \<in> set ?sched"
    proof (cases "entry_trigger CronTrigger (cron_jobs ! idx)")
      case None
      then show ?thesis
        using lvl [OF i] by (auto simp: entry_level_def registered_set)
    next
      case (Some tr)
      obtain t r where "tr = (t, r)" by (cases tr)
      with Some i show ?thesis
        using lvl [OF i] by (auto simp: entry_level_def registered_set)
    qed
  qed
  from run len sorted mem each show ?thesis by blast
qed

lemma setup_scheduler_skips_malformed_sample:
  "entry_trigger sample_trigger (sample_cron_jobs ! 1) = None
   \<and> entry_trigger sample_trigger (sample_cron_jobs ! 2) = None
   \<and> entry_trigger sample_trigger (sample_cron_jobs ! 3) = None
   \<and> entry_trigger sample_trigger (sample_cron_jobs ! 4) = None
   \<and> setup_scheduler sample_trigger sample_cron_jobs sample_definitions [] =
     Inr ([\<lparr>job_id = 0, job_trigger = (''*'', ''*'', ''*'', ''*'', ''*''),
             job_args = (PStr ''event.py'', sample_definitions)\<rparr>,
           \<lparr>job_id = 5, job_trigger = (''0'', ''9'', ''*'', ''*'', ''1''),
             job_args = (PStr ''idle_event.py'', sample_definitions)\<rparr>],
          [(INFO, Scheduled_job 0 ''* * * * *'' (PStr ''event.py'')),
           (ERROR, Invalid_job_definition 1 (PDict [(''task-reference'', PStr ''event.py'')])),
           (ERROR, Invalid_job_definition 2 (PDict [(''cron'', PStr ''0 9 * * 1'')])),
           (ERROR, Invalid_cron_format ''0 9 * *''),
           (ERROR, Error_adding_job 4 (Exception ''ValueError'')),
           (INFO, Scheduled_job 5 ''0 9 * * 1'' (PStr ''idle_event.py''))])"
proof -
  have dicts: "\<forall>job \<in> set sample_cron_jobs. \<exists>kvs. job = PDict kvs"
    by (simp add: sample_cron_jobs_def)
  have exc: "\<forall>m h d mo dw e. sample_trigger m h d mo dw = Inl e \<longrightarrow> (\<exists>c. e = Exception c)"
    by (simp add: sample_trigger_def)
  have malformed:
    "entry_trigger sample_trigger (sample_cron_jobs ! 1) = None"
    "entry_trigger sample_trigger (sample_cron_jobs ! 2) = None"
    "entry_trigger sample_trigger (sample_cron_jobs ! 3) = None"
    "entry_trigger sample_trigger (sample_cron_jobs ! 4) = None"
    by (simp_all add: entry_trigger_def sample_cron_jobs_def sample_trigger_def py_split_def
        py_isspace_def)
  from setup_scheduler_skips_malformed [OF dicts exc, of sample_definitions "[]"]
  obtain sched new where
    "setup_scheduler sample_trigger sample_cron_jobs sample_definitions [] = Inr (sched, [] @ new)"
    by blast
  with malformed sample_setup show ?thesis by simp
qed

text \<open>
  Claim C3: a malformed entry of the configured list is skipped with a recorded error
  and every remaining valid entry is still registered. The code does not do so for an
  entry that is not a record. A \<^verbatim>\<open>null\<close> entry has neither a cron expression nor an
  event reference; \<^verbatim>\<open>job.get\<close>, which stands before the \<^verbatim>\<open>try\<close> statement, raises
  \<^verbatim>\<open>AttributeError\<close> on it, and \<^verbatim>\<open>setup_scheduler\<close> ends with that exception: it returns
  no scheduler and logs nothing, although the entry after it is well-formed.
\<close>

theorem setup_scheduler_null_entry_aborts:
  "entry_trigger sample_trigger (null_entry_jobs ! 0) = None
   \<and> entry_trigger sample_trigger (null_entry_jobs ! 1)
       = Some ((''*'', ''*'', ''*'', ''*'', ''*''), PStr ''event.py'')
   \<and> setup_scheduler sample_trigger null_entry_jobs sample_definitions []
       = Inl (Exception ''AttributeError'')"
  by (simp add: null_entry_jobs_def setup_scheduler_def entry_trigger_def sample_trigger_def
      py_split_def py_isspace_def)

section \<open>Exceptions at the invocation boundary\<close>


text \<open>
  A task whose \<^verbatim>\<open>run\<close> raises an exception whose \<^verbatim>\<open>__str__\<close> raises \<^verbatim>\<open>TypeError\<close>:
  the handler of \<^verbatim>\<open>run_task\<close> formats the exception outside any \<^verbatim>\<open>try\<close>, and the
  \<^verbatim>\<open>TypeError\<close> leaves \<^verbatim>\<open>run_task\<close>.
\<close>

lemma run_task_unprintable:
  "fst (run_task sample_env (PStr ''unprintable'') sample_definitions start)
     = Inl (Exception ''TypeError'')"
  by (simp add: sample_defs model_defs)



text \<open>
  A module whose top-level code raises \<^verbatim>\<open>SystemExit\<close>: the exception leaves
  \<^verbatim>\<open>load_module_from_file\<close>.
\<close>

theorem load_module_from_file_SystemExit:
  "fst (load_module_from_file sample_env (PStr ''task/exit_on_import.py'') None start)
     = Inl (BaseExceptionOnly ''SystemExit'')"
  by (simp add: sample_defs model_defs)

text \<open>
  A module whose top-level code raises an exception whose \<^verbatim>\<open>__str__\<close> raises
  \<^verbatim>\<open>TypeError\<close>: the handler of \<^verbatim>\<open>load_module_from_file\<close> formats the exception
  outside any \<^verbatim>\<open>try\<close>, and the \<^verbatim>\<open>TypeError\<close> leaves the function.
\<close>

lemma load_module_from_file_unprintable:
  "fst (load_module_from_file sample_env (PStr ''task/unprintable_import.py'') None start)
     = Inl (Exception ''TypeError'')"
  by (simp add: sample_defs model_defs)

text \<open>
  Claim C9, amended. \<^verbatim>\<open>load_module_from_file\<close> returns \<^verbatim>\<open>None\<close> when the file does
  not exist, when no spec or loader is found, and when the existence test, the spec
  creation or the execution of the module raises a printable instance of \<^verbatim>\<open>Exception\<close>;
  with every \<^verbatim>\<open>None\<close> it returns there is one error record in the log. An exception
  outside \<^verbatim>\<open>Exception\<close> raised by the execution of the module leaves the function.
  Unless the body of the \<^verbatim>\<open>try\<close> statement raises an instance of \<^verbatim>\<open>Exception\<close> that
  cannot be printed, nothing but an exception outside \<^verbatim>\<open>Exception\<close> leaves the function.
\<close>

theorem load_module_from_file_failures:
  assumes "load_module_from_file env file_path module_name s = (r, s')"
  shows "(r = Inr None \<longrightarrow> (\<exists>m. logs s' = logs s @ [(ERROR, m)]))
       \<and> (\<forall>p. file_path = PStr p \<and> path_exists env p (world s) = Inr False \<longrightarrow> r = Inr None)
       \<and> (\<forall>p c. file_path = PStr p \<and> path_exists env p (world s) = Inl (Exception c)
              \<longrightarrow> r = Inr None)
       \<and> (\<forall>p n. file_path = PStr p \<and> path_exists env p (world s) = Inr True
              \<and> n = (case module_name of None \<Rightarrow> path_stem env p | Some n' \<Rightarrow> n')
              \<and> (spec_from_file_location env n p (world s) = Inr False
                  \<or> (\<exists>c. spec_from_file_location env n p (world s) = Inl (Exception c))
                  \<or> (spec_from_file_location env n p (world s) = Inr True
                      \<and> (\<exists>c. fst (exec_module env n p (world s)) = Inl (Exception c))))
              \<longrightarrow> r = Inr None)
       \<and> (\<forall>p n x. file_path = PStr p \<and> path_exists env p (world s) = Inr True
              \<and> n = (case module_name of None \<Rightarrow> path_stem env p | Some n' \<Rightarrow> n')
              \<and> spec_from_file_location env n p (world s) = Inr True
              \<and> fst (exec_module env n p (world s)) = Inl (BaseExceptionOnly x)
              \<longrightarrow> r = Inl (BaseExceptionOnly x))
       \<and> ((\<forall>c x. fst (load_module_body env file_path module_name s) \<noteq> Inl (Unprintable c x))
              \<longrightarrow> (\<forall>e. r = Inl e \<longrightarrow> (\<exists>x. e = BaseExceptionOnly x)))"
proof -
  obtain r0 s0 where b: "load_module_body env file_path module_name s = (r0, s0)"
    by (cases "load_module_body env file_path module_name s")
  have last: "(\<forall>c x. fst (load_module_body env file_path module_name s) \<noteq> Inl (Unprintable c x))
              \<longrightarrow> (\<forall>e. r = Inl e \<longrightarrow> (\<exists>x. e = BaseExceptionOnly x))"
  proof (intro impI allI)
    fix e
    assume printable: "\<forall>c x. fst (load_module_body env file_path module_name s)
                          \<noteq> Inl (Unprintable c x)"
      and left: "r = Inl e"
    show "\<exists>x. e = BaseExceptionOnly x"
    proof (cases r0)
      case (Inr m)
      with b left assms show ?thesis by (simp add: load_module_from_file_def)
    next
      case (Inl e0)
      with b printable left assms show ?thesis
        by (cases e0) (auto simp: load_module_from_file_def)
    qed
  qed
  have r: "r = fst (load_module_from_file env file_path module_name s)"
    using assms by simp
  have logged: "r = Inr None \<longrightarrow> (\<exists>m. logs s' = logs s @ [(ERROR, m)])"
  proof
    assume none: "r = Inr None"
    note bl = load_module_body_logs [OF b]
    show "\<exists>m. logs s' = logs s @ [(ERROR, m)]"
    proof (cases r0)
      case (Inr m)
      with b assms none bl show ?thesis by (simp add: load_module_from_file_def)
    next
      case (Inl e0)
      with bl have "logs s0 = logs s" by simp
      with Inl b assms none show ?thesis
        by (cases e0) (auto simp: load_module_from_file_def logger_error_def)
    qed
  qed
  have missing: "\<forall>p. file_path = PStr p \<and> path_exists env p (world s) = Inr False
                  \<longrightarrow> r = Inr None"
  proof (intro allI impI, elim conjE)
    fix p assume "file_path = PStr p" and "path_exists env p (world s) = Inr False"
    then have "fst (load_module_body env file_path module_name s) = Inr None"
      by (simp add: load_module_body_missing)
    then show "r = Inr None" using r by (simp add: load_module_from_file_of_body(1))
  qed
  have exists_raises: "\<forall>p c. file_path = PStr p \<and> path_exists env p (world s) = Inl (Exception c)
              \<longrightarrow> r = Inr None"
  proof (intro allI impI, elim conjE)
    fix p c assume "file_path = PStr p" and "path_exists env p (world s) = Inl (Exception c)"
    then have "fst (load_module_body env file_path module_name s) = Inl (Exception c)"
      by (simp add: load_module_body_exists_raises)
    then show "r = Inr None" using r by (simp add: load_module_from_file_of_body(2))
  qed
  have later: "\<forall>p n. file_path = PStr p \<and> path_exists env p (world s) = Inr True
              \<and> n = (case module_name of None \<Rightarrow> path_stem env p | Some n' \<Rightarrow> n')
              \<and> (spec_from_file_location env n p (world s) = Inr False
                  \<or> (\<exists>c. spec_from_file_location env n p (world s) = Inl (Exception c))
                  \<or> (spec_from_file_location env n p (world s) = Inr True
                      \<and> (\<exists>c. fst (exec_module env n p (world s)) = Inl (Exception c))))
              \<longrightarrow> r = Inr None"
  proof (intro allI impI, elim conjE disjE exE)
    fix p n
    assume fp: "file_path = PStr p" and ex: "path_exists env p (world s) = Inr True"
      and n: "n = (case module_name of None \<Rightarrow> path_stem env p | Some n' \<Rightarrow> n')"
      and "spec_from_file_location env n p (world s) = Inr False"
    then have "fst (load_module_body env file_path module_name s) = Inr None"
      by (simp add: load_module_body_no_spec)
    then show "r = Inr None" using r by (simp add: load_module_from_file_of_body(1))
  next
    fix p n c
    assume fp: "file_path = PStr p" and ex: "path_exists env p (world s) = Inr True"
      and n: "n = (case module_name of None \<Rightarrow> path_stem env p | Some n' \<Rightarrow> n')"
      and "spec_from_file_location env n p (world s) = Inl (Exception c)"
    then have "fst (load_module_body env file_path module_name s) = Inl (Exception c)"
      by (simp add: load_module_body_spec_raises)
    then show "r = Inr None" using r by (simp add: load_module_from_file_of_body(2))
  next
    fix p n c
    assume fp: "file_path = PStr p" and ex: "path_exists env p (world s) = Inr True"
      and n: "n = (case module_name of None \<Rightarrow> path_stem env p | Some n' \<Rightarrow> n')"
      and "spec_from_file_location env n p (world s) = Inr True"
      and "fst (exec_module env n p (world s)) = Inl (Exception c)"
    then have "fst (load_module_body env file_path module_name s) = Inl (Exception c)"
      by (simp add: load_module_body_exec_raises)
    then show "r = Inr None" using r by (simp add: load_module_from_file_of_body(2))
  qed
  have base: "\<forall>p n x. file_path = PStr p \<and> path_exists env p (world s) = Inr True
              \<and> n = (case module_name of None \<Rightarrow> path_stem env p | Some n' \<Rightarrow> n')
              \<and> spec_from_file_location env n p (world s) = Inr True
              \<and> fst (exec_module env n p (world s)) = Inl (BaseExceptionOnly x)
              \<longrightarrow> r = Inl (BaseExceptionOnly x)"
  proof (intro allI impI, elim conjE)
    fix p n x
    assume fp: "file_path = PStr p" and ex: "path_exists env p (world s) = Inr True"
      and n: "n = (case module_name of None \<Rightarrow> path_stem env p | Some n' \<Rightarrow> n')"
      and "spec_from_file_location env n p (world s) = Inr True"
      and "fst (exec_module env n p (world s)) = Inl (BaseExceptionOnly x)"
    then have "fst (load_module_body env file_path module_name s) = Inl (BaseExceptionOnly x)"
      by (simp add: load_module_body_exec_raises)
    then show "r = Inl (BaseExceptionOnly x)"
      using r by (simp add: load_module_from_file_of_body(3))
  qed
  note rest = conjI [OF logged conjI [OF missing conjI [OF exists_raises conjI [OF later base]]]]
  from rest last show ?thesis by (intro conjI) (elim conjE, assumption)+
qed

theorem load_module_from_file_failures_witness:
  "path_exists sample_env ''nowhere.py'' (world start) = Inr False
   \<and> fst (load_module_from_file sample_env (PStr ''nowhere.py'') None start) = Inr None
   \<and> path_exists sample_env ''task/broken.py'' (world start) = Inr True
   \<and> spec_from_file_location sample_env ''broken'' ''task/broken.py'' (world start) = Inr True
   \<and> fst (exec_module sample_env ''broken'' ''task/broken.py'' (world start))
        = Inl (Exception ''SyntaxError'')
   \<and> fst (load_module_from_file sample_env (PStr ''task/broken.py'') None start) = Inr None"
proof -
  have pair: "load_module_from_file sample_env fp None start =
      (fst (load_module_from_file sample_env fp None start),
       snd (load_module_from_file sample_env fp None start))" for fp
    by simp
  have a: "path_exists sample_env ''nowhere.py'' (world start) = Inr False"
    by (simp add: sample_defs)
  have b: "path_exists sample_env ''task/broken.py'' (world start) = Inr True"
    and c: "path_stem sample_env ''task/broken.py'' = ''broken''"
    and d: "spec_from_file_location sample_env ''broken'' ''task/broken.py'' (world start) = Inr True"
    and e: "fst (exec_module sample_env ''broken'' ''task/broken.py'' (world start))
              = Inl (Exception ''SyntaxError'')"
    by (simp_all add: sample_defs)
  have "fst (load_module_from_file sample_env (PStr ''nowhere.py'') None start) = Inr None"
    using load_module_from_file_failures [OF pair [of "PStr ''nowhere.py''"]] a by simp
  moreover
  have "fst (load_module_from_file sample_env (PStr ''task/broken.py'') None start) = Inr None"
    using load_module_from_file_failures [OF pair [of "PStr ''task/broken.py''"]] b c d e
    by simp
  ultimately show ?thesis using a b d e by simp
qed

section \<open>The task runner\<close>

text \<open>
  Claim C5. For a task identifier that is not in the catalog, \<^verbatim>\<open>run_task\<close> returns
  normally; it appends one error record to the log and changes nothing else: the world
  and the trace are as before, so no unit was loaded and no capability was invoked.
\<close>

theorem run_task_unknown_task_id:
  assumes "\<not> in_catalog task_definitions task_id"
  shows "run_task env task_id task_definitions s =
           (Inr (), s\<lparr>logs := logs s @ [(ERROR, lookup_error task_id)]\<rparr>)"
  using run_task_absent [OF assms] by (simp add: logger_error_def)

theorem run_task_unknown_task_id_witness:
  "\<not> in_catalog sample_definitions (PStr ''missing'')
   \<and> run_task sample_env (PStr ''missing'') sample_definitions start =
       (Inr (), \<lparr>world = 0, logs = [(ERROR, Task_id_not_found (PStr ''missing''))], trace = []\<rparr>)"
  using run_task_unknown_task_id [of sample_definitions "PStr ''missing''" sample_env start]
  by (simp add: in_catalog_def sample_definitions_def start_def lookup_error_def unhashable_def)

text \<open>
  Claim C10. For a task identifier in the catalog whose definition has no location, or
  a location that is empty, \<^verbatim>\<open>run_task\<close> returns normally; it appends one error record
  to the log and changes nothing else, so no module was loaded and no capability was
  invoked.
\<close>

theorem run_task_no_location:
  assumes "task_definitions k = Some task_info"
    and "\<forall>loc. py_get task_info ''location'' = Inr loc \<longrightarrow> \<not> truthy loc"
  shows "run_task env (PStr k) task_definitions s =
           (Inr (), s\<lparr>logs := logs s @
              [(ERROR, case py_get task_info ''location'' of
                         Inl e \<Rightarrow> Error_executing_task (PStr k) e
                       | Inr loc \<Rightarrow> No_location (PStr k))]\<rparr>)"
  using assms
  by (cases task_info)
     (auto simp: run_task_def run_task_body_def except_Exception_def logger_error_def
        split: sum.splits)

theorem run_task_no_location_witness:
  "sample_definitions ''unplaced'' = Some (PDict [(''description'', PStr ''no location'')])
   \<and> py_get (PDict [(''description'', PStr ''no location'')]) ''location'' = Inr PNone
   \<and> \<not> truthy PNone
   \<and> run_task sample_env (PStr ''unplaced'') sample_definitions start =
       (Inr (), \<lparr>world = 0, logs = [(ERROR, No_location (PStr ''unplaced''))], trace = []\<rparr>)
   \<and> sample_definitions ''blank'' = Some (PDict [(''location'', PStr '''')])
   \<and> py_get (PDict [(''location'', PStr '''')]) ''location'' = Inr (PStr '''')
   \<and> \<not> truthy (PStr '''')
   \<and> run_task sample_env (PStr ''blank'') sample_definitions start =
       (Inr (), \<lparr>world = 0, logs = [(ERROR, No_location (PStr ''blank''))], trace = []\<rparr>)"
proof -
  have a: "sample_definitions ''unplaced'' = Some (PDict [(''description'', PStr ''no location'')])"
    and b: "sample_definitions ''blank'' = Some (PDict [(''location'', PStr '''')])"
    by (simp_all add: sample_definitions_def)
  have a': "\<forall>loc. py_get (PDict [(''description'', PStr ''no location'')]) ''location'' = Inr loc
              \<longrightarrow> \<not> truthy loc"
    and b': "\<forall>loc. py_get (PDict [(''location'', PStr '''')]) ''location'' = Inr loc
              \<longrightarrow> \<not> truthy loc"
    by simp_all
  from run_task_no_location [of sample_definitions "''unplaced''"
        "PDict [(''description'', PStr ''no location'')]" sample_env start, OF a a']
    run_task_no_location [of sample_definitions "''blank''"
        "PDict [(''location'', PStr '''')]" sample_env start, OF b b'] a b
  show ?thesis by (simp add: start_def)
qed

section \<open>Units without their capability\<close>

text \<open>
  Claim C7. When the event script has loaded and has no \<^verbatim>\<open>task_id\<close>,
  \<^verbatim>\<open>execute_cron_event\<close> logs an error and returns in the state the load left. When the
  task module has loaded and has no \<^verbatim>\<open>run\<close>, \<^verbatim>\<open>run_task\<close> logs an error and returns
  in the state the load left. In both cases no capability has been invoked since the
  call began.
\<close>

theorem missing_capability_abandons:
  "(load_module_from_file env p None (logger_info (Executing_cron_event p) s)
       = (Inr (Some event_module), s1)
     \<and> task_id_attr event_module = None
     \<longrightarrow> execute_cron_event env p d s =
           (Inr (), s1\<lparr>logs := logs s1 @ [(ERROR, No_task_id_function p)]\<rparr>)
         \<and> count_list (trace s1) Call_task_id = count_list (trace s) Call_task_id
         \<and> count_list (trace s1) Call_run = count_list (trace s) Call_run)
   \<and> (d k = Some task_info \<and> py_get task_info ''location'' = Inr loc \<and> truthy loc
     \<and> load_module_from_file env loc (Some (''task_'' @ k))
          (logger_info (Running_task (PStr k) loc) s) = (Inr (Some task_module), s2)
     \<and> run_attr task_module = None
     \<longrightarrow> run_task env (PStr k) d s =
           (Inr (), s2\<lparr>logs := logs s2 @ [(ERROR, No_run_function (PStr k))]\<rparr>)
         \<and> count_list (trace s2) Call_task_id = count_list (trace s) Call_task_id
         \<and> count_list (trace s2) Call_run = count_list (trace s) Call_run)"
proof (intro conjI impI)
  assume a: "load_module_from_file env p None (logger_info (Executing_cron_event p) s)
       = (Inr (Some event_module), s1) \<and> task_id_attr event_module = None"
  then show "execute_cron_event env p d s =
           (Inr (), s1\<lparr>logs := logs s1 @ [(ERROR, No_task_id_function p)]\<rparr>)"
    by (simp add: execute_cron_event_def execute_cron_event_body_def except_Exception_def
        logger_error_def)
  from a load_module_from_file_counts [of env p None "logger_info (Executing_cron_event p) s"]
  show "count_list (trace s1) Call_task_id = count_list (trace s) Call_task_id"
    and "count_list (trace s1) Call_run = count_list (trace s) Call_run"
    by auto
next
  assume a: "d k = Some task_info \<and> py_get task_info ''location'' = Inr loc \<and> truthy loc
     \<and> load_module_from_file env loc (Some (''task_'' @ k))
          (logger_info (Running_task (PStr k) loc) s) = (Inr (Some task_module), s2)
     \<and> run_attr task_module = None"
  then show "run_task env (PStr k) d s =
           (Inr (), s2\<lparr>logs := logs s2 @ [(ERROR, No_run_function (PStr k))]\<rparr>)"
    by (simp add: run_task_def run_task_body_def except_Exception_def logger_error_def)
  from a load_module_from_file_counts [of env loc "Some (''task_'' @ k)"
      "logger_info (Running_task (PStr k) loc) s"]
  show "count_list (trace s2) Call_task_id = count_list (trace s) Call_task_id"
    and "count_list (trace s2) Call_run = count_list (trace s) Call_run"
    by auto
qed

theorem missing_capability_abandons_witness:
  "load_module_from_file sample_env (PStr ''task/empty.py'') None
       (logger_info (Executing_cron_event (PStr ''task/empty.py'')) start)
     = (Inr (Some \<lparr>run_attr = None, task_id_attr = None\<rparr>),
        \<lparr>world = 1, logs = [(INFO, Executing_cron_event (PStr ''task/empty.py''))],
         trace = [Exec_module ''task/empty.py'' ''empty'']\<rparr>)
   \<and> execute_cron_event sample_env (PStr ''task/empty.py'') sample_definitions start =
       (Inr (),
        \<lparr>world = 1,
         logs = [(INFO, Executing_cron_event (PStr ''task/empty.py'')),
                 (ERROR, No_task_id_function (PStr ''task/empty.py''))],
         trace = [Exec_module ''task/empty.py'' ''empty'']\<rparr>)
   \<and> sample_definitions ''empty'' = Some (PDict [(''location'', PStr ''task/empty.py'')])
   \<and> load_module_from_file sample_env (PStr ''task/empty.py'') (Some ''task_empty'')
       (logger_info (Running_task (PStr ''empty'') (PStr ''task/empty.py'')) start)
     = (Inr (Some \<lparr>run_attr = None, task_id_attr = None\<rparr>),
        \<lparr>world = 1, logs = [(INFO, Running_task (PStr ''empty'') (PStr ''task/empty.py''))],
         trace = [Exec_module ''task/empty.py'' ''task_empty'']\<rparr>)
   \<and> run_task sample_env (PStr ''empty'') sample_definitions start =
       (Inr (),
        \<lparr>world = 1,
         logs = [(INFO, Running_task (PStr ''empty'') (PStr ''task/empty.py'')),
                 (ERROR, No_run_function (PStr ''empty''))],
         trace = [Exec_module ''task/empty.py'' ''task_empty'']\<rparr>)"
proof -
  have a: "load_module_from_file sample_env (PStr ''task/empty.py'') None
       (logger_info (Executing_cron_event (PStr ''task/empty.py'')) start)
     = (Inr (Some \<lparr>run_attr = None, task_id_attr = None\<rparr>),
        \<lparr>world = 1, logs = [(INFO, Executing_cron_event (PStr ''task/empty.py''))],
         trace = [Exec_module ''task/empty.py'' ''empty'']\<rparr>)"
    by (simp add: sample_defs model_defs)
  have b: "sample_definitions ''empty'' = Some (PDict [(''location'', PStr ''task/empty.py'')])"
    by (simp add: sample_definitions_def)
  have c: "load_module_from_file sample_env (PStr ''task/empty.py'') (Some ''task_empty'')
       (logger_info (Running_task (PStr ''empty'') (PStr ''task/empty.py'')) start)
     = (Inr (Some \<lparr>run_attr = None, task_id_attr = None\<rparr>),
        \<lparr>world = 1, logs = [(INFO, Running_task (PStr ''empty'') (PStr ''task/empty.py''))],
         trace = [Exec_module ''task/empty.py'' ''task_empty'']\<rparr>)"
    by (simp add: sample_defs model_defs)
  from missing_capability_abandons
    [of sample_env "PStr ''task/empty.py''" start "\<lparr>run_attr = None, task_id_attr = None\<rparr>"
       "\<lparr>world = 1, logs = [(INFO, Executing_cron_event (PStr ''task/empty.py''))],
         trace = [Exec_module ''task/empty.py'' ''empty'']\<rparr>"
       sample_definitions "''empty''" "PDict [(''location'', PStr ''task/empty.py'')]"
       "PStr ''task/empty.py''" "\<lparr>run_attr = None, task_id_attr = None\<rparr>"
       "\<lparr>world = 1, logs = [(INFO, Running_task (PStr ''empty'') (PStr ''task/empty.py''))],
         trace = [Exec_module ''task/empty.py'' ''task_empty'']\<rparr>"]
    a b c
  show ?thesis by simp
qed

section \<open>The event dispatcher\<close>

text \<open>
  Claim C6. When the event script has loaded and has a \<^verbatim>\<open>task_id\<close>,
  \<^verbatim>\<open>execute_cron_event\<close> invokes it exactly once. When it returns \<^verbatim>\<open>None\<close>, the call
  logs that and ends, and no execution capability has been invoked. When it returns any
  other value, the call is one call of \<^verbatim>\<open>run_task\<close> on that value and the whole task
  catalog, made inside the \<^verbatim>\<open>try\<close> statement of \<^verbatim>\<open>execute_cron_event\<close>: the outcome of
  \<^verbatim>\<open>run_task\<close> is the outcome of the call, unless it is an instance of \<^verbatim>\<open>Exception\<close>,
  which the handler of \<^verbatim>\<open>execute_cron_event\<close> takes.
\<close>

theorem execute_cron_event_decision:
  assumes "load_module_from_file env p None (logger_info (Executing_cron_event p) s)
             = (Inr (Some event_module), s1)"
    and "task_id_attr event_module = Some decide"
  shows "count_list (trace (snd (execute_cron_event env p d s))) Call_task_id
           = Suc (count_list (trace s) Call_task_id)
       \<and> (\<forall>w2. decide (world s1) = (Inr PNone, w2) \<longrightarrow>
            execute_cron_event env p d s =
              (Inr (), s1\<lparr>world := w2, trace := trace s1 @ [Call_task_id],
                            logs := logs s1 @ [(INFO, Returned_None p)]\<rparr>)
            \<and> count_list (trace (snd (execute_cron_event env p d s))) Call_run
                = count_list (trace s) Call_run)
       \<and> (\<forall>v w2. decide (world s1) = (Inr v, w2) \<and> v \<noteq> PNone \<longrightarrow>
            execute_cron_event env p d s =
              except_Exception (cron_event_handler p)
                (run_task env v d
                   (s1\<lparr>world := w2, trace := trace s1 @ [Call_task_id],
                        logs := logs s1 @ [(INFO, Returned_task_id p v)]\<rparr>))
            \<and> ((\<forall>e. fst (run_task env v d
                          (s1\<lparr>world := w2, trace := trace s1 @ [Call_task_id],
                               logs := logs s1 @ [(INFO, Returned_task_id p v)]\<rparr>)) = Inl e
                      \<longrightarrow> \<not> is_Exception e) \<longrightarrow>
                execute_cron_event env p d s =
                  run_task env v d
                    (s1\<lparr>world := w2, trace := trace s1 @ [Call_task_id],
                         logs := logs s1 @ [(INFO, Returned_task_id p v)]\<rparr>)))"
proof (intro conjI allI impI)
  note cnt = load_module_from_file_counts [OF assms(1)]
  obtain r w2 where d: "decide (world s1) = (r, w2)" by (cases "decide (world s1)")
  show "count_list (trace (snd (execute_cron_event env p d s))) Call_task_id
           = Suc (count_list (trace s) Call_task_id)"
  proof (cases r)
    case (Inl e)
    with d execute_cron_event_raised [OF assms, of e w2 d] cnt show ?thesis by simp
  next
    case (Inr v)
    show ?thesis
    proof (cases "v = PNone")
      case True
      with Inr d execute_cron_event_decided [OF assms, of v w2 d] cnt show ?thesis by simp
    next
      case False
      let ?s2 = "logger_info (Returned_task_id p v)
                      (s1\<lparr>world := w2, trace := trace s1 @ [Call_task_id]\<rparr>)"
      have "count_list (trace (snd (run_task env v d ?s2))) Call_task_id
              = count_list (trace ?s2) Call_task_id"
        using run_task_counts [of env v d ?s2] by (cases "run_task env v d ?s2") simp
      moreover
      have "trace (snd (except_Exception (cron_event_handler p) (run_task env v d ?s2)))
              = trace (snd (run_task env v d ?s2))"
        using except_Exception_trace [of "cron_event_handler p" "fst (run_task env v d ?s2)"
            "snd (run_task env v d ?s2)"]
        by (simp add: handler_trace)
      moreover
      have "execute_cron_event env p d s =
              except_Exception (cron_event_handler p) (run_task env v d ?s2)"
        using False Inr d execute_cron_event_decided [OF assms, of v w2 d] by simp
      ultimately show ?thesis using cnt by simp
    qed
  qed
next
  fix w2 assume a: "decide (world s1) = (Inr PNone, w2)"
  from execute_cron_event_decided [OF assms a, of d]
  show e: "execute_cron_event env p d s =
              (Inr (), s1\<lparr>world := w2, trace := trace s1 @ [Call_task_id],
                            logs := logs s1 @ [(INFO, Returned_None p)]\<rparr>)"
    by (simp add: logger_info_def)
  from load_module_from_file_counts [OF assms(1)]
  show "count_list (trace (snd (execute_cron_event env p d s))) Call_run
                = count_list (trace s) Call_run"
    by (simp add: e)
next
  fix v w2 assume a: "decide (world s1) = (Inr v, w2) \<and> v \<noteq> PNone"
  then have a1: "decide (world s1) = (Inr v, w2)" and a2: "v \<noteq> PNone" by simp_all
  from execute_cron_event_decided [OF assms a1, of d] a2
  show e: "execute_cron_event env p d s =
              except_Exception (cron_event_handler p)
                (run_task env v d
                   (s1\<lparr>world := w2, trace := trace s1 @ [Call_task_id],
                        logs := logs s1 @ [(INFO, Returned_task_id p v)]\<rparr>))"
    by (simp add: logger_info_def)
  assume "\<forall>e. fst (run_task env v d
                          (s1\<lparr>world := w2, trace := trace s1 @ [Call_task_id],
                               logs := logs s1 @ [(INFO, Returned_task_id p v)]\<rparr>)) = Inl e
                      \<longrightarrow> \<not> is_Exception e"
  from except_Exception_not_caught [OF this] e
  show "execute_cron_event env p d s =
                  run_task env v d
                    (s1\<lparr>world := w2, trace := trace s1 @ [Call_task_id],
                         logs := logs s1 @ [(INFO, Returned_task_id p v)]\<rparr>)"
    by simp
qed

theorem execute_cron_event_decision_witness:
  "count_list (trace (snd (execute_cron_event sample_env (PStr ''event.py'')
       sample_definitions start))) Call_task_id = 1
   \<and> execute_cron_event sample_env (PStr ''event.py'') sample_definitions start =
       except_Exception (cron_event_handler (PStr ''event.py''))
         (run_task sample_env (PStr ''example'') sample_definitions
            \<lparr>world = 2,
             logs = [(INFO, Executing_cron_event (PStr ''event.py'')),
                     (INFO, Returned_task_id (PStr ''event.py'') (PStr ''example''))],
             trace = [Exec_module ''event.py'' ''event'', Call_task_id]\<rparr>)
   \<and> execute_cron_event sample_env (PStr ''idle_event.py'') sample_definitions start =
       (Inr (),
        \<lparr>world = 2,
         logs = [(INFO, Executing_cron_event (PStr ''idle_event.py'')),
                 (INFO, Returned_None (PStr ''idle_event.py''))],
         trace = [Exec_module ''idle_event.py'' ''idle_event'', Call_task_id]\<rparr>)"
proof -
  let ?s1 = "\<lparr>world = 1, logs = [(INFO, Executing_cron_event (PStr ''event.py''))],
              trace = [Exec_module ''event.py'' ''event'']\<rparr> :: nat state"
  let ?s1' = "\<lparr>world = 1, logs = [(INFO, Executing_cron_event (PStr ''idle_event.py''))],
              trace = [Exec_module ''idle_event.py'' ''idle_event'']\<rparr> :: nat state"
  have a: "load_module_from_file sample_env (PStr ''event.py'') None
             (logger_info (Executing_cron_event (PStr ''event.py'')) start)
           = (Inr (Some \<lparr>run_attr = None, task_id_attr = Some (returns (PStr ''example''))\<rparr>), ?s1)"
    by (simp add: sample_env_def sample_files_def start_def model_defs)
  have a': "load_module_from_file sample_env (PStr ''idle_event.py'') None
             (logger_info (Executing_cron_event (PStr ''idle_event.py'')) start)
           = (Inr (Some \<lparr>run_attr = None, task_id_attr = Some (returns PNone)\<rparr>), ?s1')"
    by (simp add: sample_env_def sample_files_def start_def model_defs)
  have d: "returns (PStr ''example'') (world ?s1) = (Inr (PStr ''example''), 2)"
    "returns PNone (world ?s1') = (Inr PNone, 2)"
    by (simp_all add: returns_def)
  have b: "task_id_attr \<lparr>run_attr = None, task_id_attr = Some (returns (PStr ''example''))\<rparr>
             = Some (returns (PStr ''example''))"
    "task_id_attr \<lparr>run_attr = None, task_id_attr = Some (returns PNone)\<rparr>
             = Some (returns PNone)"
    by simp_all
  note active = execute_cron_event_decision [OF a b(1), of sample_definitions]
  note idle = execute_cron_event_decision [OF a' b(2), of sample_definitions]
  have c1: "count_list (trace (snd (execute_cron_event sample_env (PStr ''event.py'')
       sample_definitions start))) Call_task_id = 1"
    using active [THEN conjunct1] by (simp add: start_def)
  have c2: "execute_cron_event sample_env (PStr ''event.py'') sample_definitions start =
       except_Exception (cron_event_handler (PStr ''event.py''))
         (run_task sample_env (PStr ''example'') sample_definitions
            \<lparr>world = 2,
             logs = [(INFO, Executing_cron_event (PStr ''event.py'')),
                     (INFO, Returned_task_id (PStr ''event.py'') (PStr ''example''))],
             trace = [Exec_module ''event.py'' ''event'', Call_task_id]\<rparr>)"
    using active [THEN conjunct2, THEN conjunct2, rule_format, of "PStr ''example''" 2,
        THEN conjunct1] d(1)
    by simp
  have c3: "execute_cron_event sample_env (PStr ''idle_event.py'') sample_definitions start =
       (Inr (),
        \<lparr>world = 2,
         logs = [(INFO, Executing_cron_event (PStr ''idle_event.py'')),
                 (INFO, Returned_None (PStr ''idle_event.py''))],
         trace = [Exec_module ''idle_event.py'' ''idle_event'', Call_task_id]\<rparr>)"
    using idle [THEN conjunct2, THEN conjunct1, rule_format, of 2] d(2)
    by simp
  from c1 c2 c3 show ?thesis by blast
qed

text \<open>
  Claim C8. A value other than \<^verbatim>\<open>None\<close> returned by the decision capability, the empty
  string included, is passed to \<^verbatim>\<open>run_task\<close> as the task identifier, in one call made
  inside the \<^verbatim>\<open>try\<close> statement of \<^verbatim>\<open>execute_cron_event\<close>. When it is not in the catalog,
  the call ends with an error record in the log: "not found" for a hashable value, the
  \<^verbatim>\<open>TypeError\<close> of the membership test for a list or a dictionary.
\<close>

theorem execute_cron_event_only_None_is_no_op:
  assumes "load_module_from_file env p None (logger_info (Executing_cron_event p) s)
             = (Inr (Some event_module), s1)"
    and "task_id_attr event_module = Some decide"
    and "decide (world s1) = (Inr v, w2)"
    and "v \<noteq> PNone"
  shows "execute_cron_event env p d s =
           except_Exception (cron_event_handler p)
             (run_task env v d
                (s1\<lparr>world := w2, trace := trace s1 @ [Call_task_id],
                     logs := logs s1 @ [(INFO, Returned_task_id p v)]\<rparr>))
       \<and> ((\<forall>e. fst (run_task env v d
                     (s1\<lparr>world := w2, trace := trace s1 @ [Call_task_id],
                          logs := logs s1 @ [(INFO, Returned_task_id p v)]\<rparr>)) = Inl e
                 \<longrightarrow> \<not> is_Exception e) \<longrightarrow>
            execute_cron_event env p d s =
              run_task env v d
                (s1\<lparr>world := w2, trace := trace s1 @ [Call_task_id],
                     logs := logs s1 @ [(INFO, Returned_task_id p v)]\<rparr>))
       \<and> (\<not> in_catalog d v \<longrightarrow>
            execute_cron_event env p d s =
              (Inr (), s1\<lparr>world := w2, trace := trace s1 @ [Call_task_id],
                   logs := logs s1 @ [(INFO, Returned_task_id p v), (ERROR, lookup_error v)]\<rparr>))"
proof -
  let ?r = "run_task env v d
             (s1\<lparr>world := w2, trace := trace s1 @ [Call_task_id],
                  logs := logs s1 @ [(INFO, Returned_task_id p v)]\<rparr>)"
  have e: "execute_cron_event env p d s = except_Exception (cron_event_handler p) ?r"
    using execute_cron_event_decided [OF assms(1-3), of d] assms(4)
    by (simp add: logger_info_def)
  have same: "execute_cron_event env p d s = ?r"
    if "\<forall>e. fst ?r = Inl e \<longrightarrow> \<not> is_Exception e"
    using except_Exception_not_caught [OF that] e by simp
  have absent: "execute_cron_event env p d s =
              (Inr (), s1\<lparr>world := w2, trace := trace s1 @ [Call_task_id],
                   logs := logs s1 @ [(INFO, Returned_task_id p v), (ERROR, lookup_error v)]\<rparr>)"
    if "\<not> in_catalog d v"
    using that by (simp add: e run_task_absent logger_error_def)
  from e same absent show ?thesis by blast
qed

theorem execute_cron_event_only_None_is_no_op_witness:
  "PStr '''' \<noteq> PNone
   \<and> \<not> in_catalog sample_definitions (PStr '''')
   \<and> execute_cron_event sample_env (PStr ''blank_event.py'') sample_definitions start =
       (Inr (),
        \<lparr>world = 2,
         logs = [(INFO, Executing_cron_event (PStr ''blank_event.py'')),
                 (INFO, Returned_task_id (PStr ''blank_event.py'') (PStr '''')),
                 (ERROR, Task_id_not_found (PStr ''''))],
         trace = [Exec_module ''blank_event.py'' ''blank_event'', Call_task_id]\<rparr>)"
proof -
  let ?s1 = "\<lparr>world = 1, logs = [(INFO, Executing_cron_event (PStr ''blank_event.py''))],
              trace = [Exec_module ''blank_event.py'' ''blank_event'']\<rparr> :: nat state"
  have a: "load_module_from_file sample_env (PStr ''blank_event.py'') None
             (logger_info (Executing_cron_event (PStr ''blank_event.py'')) start)
           = (Inr (Some \<lparr>run_attr = None, task_id_attr = Some (returns (PStr ''''))\<rparr>), ?s1)"
    by (simp add: sample_env_def sample_files_def start_def model_defs)
  have b: "task_id_attr \<lparr>run_attr = None, task_id_attr = Some (returns (PStr ''''))\<rparr>
             = Some (returns (PStr ''''))"
    by simp
  have d: "returns (PStr '''') (world ?s1) = (Inr (PStr ''''), 2)"
    by (simp add: returns_def)
  have n: "PStr '''' \<noteq> PNone" by simp
  have c: "\<not> in_catalog sample_definitions (PStr '''')"
    by (simp add: in_catalog_def sample_definitions_def)
  have e: "execute_cron_event sample_env (PStr ''blank_event.py'') sample_definitions start =
       (Inr (),
        \<lparr>world = 2,
         logs = [(INFO, Executing_cron_event (PStr ''blank_event.py'')),
                 (INFO, Returned_task_id (PStr ''blank_event.py'') (PStr '''')),
                 (ERROR, Task_id_not_found (PStr ''''))],
         trace = [Exec_module ''blank_event.py'' ''blank_event'', Call_task_id]\<rparr>)"
    using execute_cron_event_only_None_is_no_op
      [OF a b d n, of sample_definitions, THEN conjunct2, THEN conjunct2, rule_format, OF c]
    by (simp add: lookup_error_def unhashable_def)
  from n c e show ?thesis by blast
qed
end

